theory Spec2Isabelle
  imports Main "HOL-Library.Multiset"
begin

section \<open>Reolink parent entity classes (homeassistant/components/reolink/entity.py)\<close>

text \<open>
  The module derives, for every entity of the integration, a unique id and a device
  identity record from the shared device handle, answers the availability query, and
  registers and unregisters the entity's update command with the device handle when the
  platform adds or removes the entity.  Objects the module only reads (the client library's
  \<open>Host\<close>, the integration's \<open>ReolinkHost\<close>, the coordinator) are records of the attributes
  it reads; the calls it issues on them are kept in an ordered trace.
\<close>

subsection \<open>Python's decimal rendering of an integer inside an f-string\<close>

definition digit_char :: "nat \<Rightarrow> char" where
  "digit_char d = ''0123456789'' ! d"

fun str_nat :: "nat \<Rightarrow> string" where
  "str_nat n = (if n < 10 then [digit_char n] else str_nat (n div 10) @ [digit_char (n mod 10)])"

declare str_nat.simps [simp del]

definition str_int :: "int \<Rightarrow> string" where
  "str_int i = (if i < 0 then CHR ''-'' # str_nat (nat (- i)) else str_nat (nat i))"

subsection \<open>The objects the entity reads\<close>

text \<open>The attributes of \<open>reolink_aio.api.Host\<close> that the module reads (\<open>self._host.api\<close>).\<close>

record Host_api =
  use_https :: bool
  host :: string
  port :: int
  mac_address :: string
  nvr_name :: string
  model :: string
  manufacturer :: string
  hardware_version :: string
  sw_version :: string
  uid :: string
  session_active :: bool
  is_nvr :: bool
  camera_name :: "int \<Rightarrow> string"
  camera_model :: "int \<Rightarrow> string"
  camera_sw_version :: "int \<Rightarrow> string"

text \<open>The integration's device handle (\<open>reolink_data.host\<close>, kept as \<open>self._host\<close>).\<close>

record ReolinkHost =
  api :: Host_api
  unique_id :: string

text \<open>
  The coordinator; \<open>CoordinatorEntity.available\<close>, which the module reaches through
  \<open>super().available\<close>, is its judgment of the last poll.
\<close>

record DataUpdateCoordinator =
  last_update_success :: bool

record ReolinkData =
  host :: ReolinkHost
  device_coordinator :: DataUpdateCoordinator

subsection \<open>Entity descriptions\<close>

text \<open>
  \<open>ReolinkChannelEntityDescription\<close> and \<open>ReolinkHostEntityDescription\<close> are the same
  dataclass up to the type of \<open>supported\<close>; \<open>key\<close> is inherited from \<open>EntityDescription\<close>.
\<close>

record 'f ReolinkEntityDescription =
  key :: string
  cmd_key :: "string option"
  supported :: 'f

type_synonym ReolinkChannelEntityDescription =
  "(Host_api \<Rightarrow> int \<Rightarrow> bool) ReolinkEntityDescription"

type_synonym ReolinkHostEntityDescription =
  "(Host_api \<Rightarrow> bool) ReolinkEntityDescription"

subsection \<open>The device identity record\<close>

text \<open>
  \<open>DOMAIN\<close> and \<open>CONNECTION_NETWORK_MAC\<close> are string constants imported from other
  modules; only their identity matters here.  \<open>DeviceInfo\<close> is a dictionary whose keys
  may be absent: an absent key is \<open>None\<close>.
\<close>

datatype registry_const = DOMAIN | CONNECTION_NETWORK_MAC

record DeviceInfo =
  identifiers :: "(registry_const \<times> string) set option"
  connections :: "(registry_const \<times> string) set option"
  via_device :: "(registry_const \<times> string) option"
  name :: "string option"
  model :: "string option"
  manufacturer :: "string option"
  hw_version :: "string option"
  sw_version :: "string option"
  serial_number :: "string option"
  configuration_url :: "string option"

subsection \<open>The entity classes\<close>

text \<open>
  Each class is a record extending its parent's, so a function on the parent's scheme
  applies to a child object as the inherited method does.  Field names drop Python's
  leading underscore.
\<close>

record ReolinkBaseCoordinatorEntity =
  coordinator :: DataUpdateCoordinator
  host :: ReolinkHost
  conf_url :: string
  attr_device_info :: DeviceInfo

record 'f ReolinkHostCoordinatorEntity = ReolinkBaseCoordinatorEntity +
  entity_description :: "'f ReolinkEntityDescription"
  attr_unique_id :: string

record ReolinkChannelCoordinatorEntity =
  "(Host_api \<Rightarrow> int \<Rightarrow> bool) ReolinkHostCoordinatorEntity" +
  channel :: int

definition ReolinkBaseCoordinatorEntity_init ::
  "ReolinkData \<Rightarrow> DataUpdateCoordinator \<Rightarrow> ReolinkBaseCoordinatorEntity" where
  "ReolinkBaseCoordinatorEntity_init reolink_data coord =
    (let h = ReolinkData.host reolink_data;
         http_s = (if use_https (api h) then ''https'' else ''http'');
         url = http_s @ ''://'' @ Host_api.host (api h) @ '':'' @ str_int (port (api h))
     in \<lparr> coordinator = coord,
          host = h,
          conf_url = url,
          attr_device_info = \<lparr>
            identifiers = Some {(DOMAIN, unique_id h)},
            connections = Some {(CONNECTION_NETWORK_MAC, mac_address (api h))},
            via_device = None,
            name = Some (nvr_name (api h)),
            model = Some (Host_api.model (api h)),
            manufacturer = Some (Host_api.manufacturer (api h)),
            hw_version = Some (hardware_version (api h)),
            sw_version = Some (Host_api.sw_version (api h)),
            serial_number = Some (uid (api h)),
            configuration_url = Some url \<rparr> \<rparr>)"

text \<open>
  The description is a class-level attribute that \<open>__init__\<close> reads; here it is an
  argument of the constructor.
\<close>

definition ReolinkHostCoordinatorEntity_init ::
  "ReolinkData \<Rightarrow> 'f ReolinkEntityDescription \<Rightarrow> 'f ReolinkHostCoordinatorEntity" where
  "ReolinkHostCoordinatorEntity_init reolink_data description =
    (let base = ReolinkBaseCoordinatorEntity_init reolink_data (device_coordinator reolink_data)
     in ReolinkBaseCoordinatorEntity.extend base
          (ReolinkHostCoordinatorEntity.fields description
             (unique_id (ReolinkBaseCoordinatorEntity.host base) @ ''_'' @ key description)))"

text \<open>\<open>DUAL_LENS_MODELS\<close> is a set of the client library, taken as a parameter.\<close>

definition ReolinkChannelCoordinatorEntity_init ::
  "string set \<Rightarrow> ReolinkData \<Rightarrow> ReolinkChannelEntityDescription \<Rightarrow> int
    \<Rightarrow> ReolinkChannelCoordinatorEntity" where
  "ReolinkChannelCoordinatorEntity_init DUAL_LENS_MODELS reolink_data description ch =
    (let self0 = ReolinkHostCoordinatorEntity.extend
                   (ReolinkHostCoordinatorEntity_init reolink_data description)
                   (ReolinkChannelCoordinatorEntity.fields ch);
         h = ReolinkBaseCoordinatorEntity.host self0;
         self1 = self0 \<lparr> attr_unique_id :=
                   unique_id h @ ''_'' @ str_int ch @ ''_'' @ key (entity_description self0) \<rparr>;
         dev_ch = (if Host_api.model (api h) \<in> DUAL_LENS_MODELS then 0 else ch)
     in if is_nvr (api h)
        then self1 \<lparr> attr_device_info := \<lparr>
               identifiers = Some {(DOMAIN, unique_id h @ ''_ch'' @ str_int dev_ch)},
               connections = None,
               via_device = Some (DOMAIN, unique_id h),
               name = Some (camera_name (api h) dev_ch),
               model = Some (camera_model (api h) dev_ch),
               manufacturer = Some (Host_api.manufacturer (api h)),
               hw_version = None,
               sw_version = Some (camera_sw_version (api h) dev_ch),
               serial_number = None,
               configuration_url = Some (conf_url self1) \<rparr> \<rparr>
        else self1)"

subsection \<open>Calls issued on the device handle and on the parent class\<close>

text \<open>
  The lifecycle hooks call \<open>async_register_update_cmd\<close> and
  \<open>async_unregister_update_cmd\<close> of the device handle, with the command key and, in the
  channel class, the channel, and the hook of the same name of \<open>CoordinatorEntity\<close>.
  The state threaded through a hook is the list of the calls issued so far, oldest first.
\<close>

datatype event =
    Register string "int option"
  | Unregister string "int option"
  | CoordinatorEntityAdded
  | CoordinatorEntityWillRemove

text \<open>
  Modelled from the spec: the register and unregister methods of the device handle live
  outside this module; they are cheap, local bookkeeping on the handle that must not fail.
  Here each records the call with its arguments; a call without a channel has channel
  \<open>None\<close>.
\<close>

definition async_register_update_cmd :: "string \<Rightarrow> int option \<Rightarrow> event list \<Rightarrow> event list" where
  "async_register_update_cmd cmd ch s = s @ [Register cmd ch]"

definition async_unregister_update_cmd :: "string \<Rightarrow> int option \<Rightarrow> event list \<Rightarrow> event list" where
  "async_unregister_update_cmd cmd ch s = s @ [Unregister cmd ch]"

text \<open>
  Modelled from the spec: the attach and detach hooks of \<open>CoordinatorEntity\<close> belong to
  the platform; the module only propagates to them, and they do not call the device
  handle.  Here each records that it was reached.
\<close>

definition CoordinatorEntity_async_added_to_hass :: "event list \<Rightarrow> event list" where
  "CoordinatorEntity_async_added_to_hass s = s @ [CoordinatorEntityAdded]"

definition CoordinatorEntity_async_will_remove_from_hass :: "event list \<Rightarrow> event list" where
  "CoordinatorEntity_async_will_remove_from_hass s = s @ [CoordinatorEntityWillRemove]"

definition ReolinkHostCoordinatorEntity_async_added_to_hass ::
  "('f, 'z) ReolinkHostCoordinatorEntity_scheme \<Rightarrow> event list \<Rightarrow> event list" where
  "ReolinkHostCoordinatorEntity_async_added_to_hass self s =
    (let s1 = CoordinatorEntity_async_added_to_hass s
     in case cmd_key (entity_description self) of
          None \<Rightarrow> s1
        | Some k \<Rightarrow> async_register_update_cmd k None s1)"

definition ReolinkHostCoordinatorEntity_async_will_remove_from_hass ::
  "('f, 'z) ReolinkHostCoordinatorEntity_scheme \<Rightarrow> event list \<Rightarrow> event list" where
  "ReolinkHostCoordinatorEntity_async_will_remove_from_hass self s =
    (let s1 = (case cmd_key (entity_description self) of
                 None \<Rightarrow> s
               | Some k \<Rightarrow> async_unregister_update_cmd k None s)
     in CoordinatorEntity_async_will_remove_from_hass s1)"

definition ReolinkChannelCoordinatorEntity_async_added_to_hass ::
  "ReolinkChannelCoordinatorEntity \<Rightarrow> event list \<Rightarrow> event list" where
  "ReolinkChannelCoordinatorEntity_async_added_to_hass self s =
    (let s1 = ReolinkHostCoordinatorEntity_async_added_to_hass self s
     in case cmd_key (entity_description self) of
          None \<Rightarrow> s1
        | Some k \<Rightarrow> async_register_update_cmd k (Some (channel self)) s1)"

definition ReolinkChannelCoordinatorEntity_async_will_remove_from_hass ::
  "ReolinkChannelCoordinatorEntity \<Rightarrow> event list \<Rightarrow> event list" where
  "ReolinkChannelCoordinatorEntity_async_will_remove_from_hass self s =
    (let s1 = (case cmd_key (entity_description self) of
                 None \<Rightarrow> s
               | Some k \<Rightarrow> async_unregister_update_cmd k (Some (channel self)) s)
     in ReolinkHostCoordinatorEntity_async_will_remove_from_hass self s1)"

subsection \<open>Availability\<close>

text \<open>
  Modelled from the spec: \<open>CoordinatorEntity.available\<close>, which lives outside this module,
  is the host coordinator's own availability judgment (freshness of the last successful
  poll), a read-only check.
\<close>

definition CoordinatorEntity_available ::
  "'z ReolinkBaseCoordinatorEntity_scheme \<Rightarrow> event list \<Rightarrow> bool \<times> event list" where
  "CoordinatorEntity_available self s = (last_update_success (coordinator self), s)"

text \<open>
  The property of the module reads the session flag first and asks the parent class only
  when the flag is set, as Python's \<open>and\<close> does.  It threads the trace of calls, to which
  a read adds nothing.
\<close>

definition available ::
  "'z ReolinkBaseCoordinatorEntity_scheme \<Rightarrow> event list \<Rightarrow> bool \<times> event list" where
  "available self s =
    (if session_active (api (ReolinkBaseCoordinatorEntity.host self))
     then CoordinatorEntity_available self s
     else (False, s))"

subsection \<open>Reading a trace\<close>

text \<open>
  The arguments of the register calls of a trace, in the order of the calls, and the same
  for the unregister calls.
\<close>

fun registrations :: "event list \<Rightarrow> (string \<times> int option) list" where
  "registrations [] = []"
| "registrations (Register k c # es) = (k, c) # registrations es"
| "registrations (e # es) = registrations es"

fun unregistrations :: "event list \<Rightarrow> (string \<times> int option) list" where
  "unregistrations [] = []"
| "unregistrations (Unregister k c # es) = (k, c) # unregistrations es"
| "unregistrations (e # es) = unregistrations es"

text \<open>
  What a trace does to the subscription interest set of the device handle.  The two
  methods live in the device handle's own module, so their effect on the set is a pair of
  parameters; the calls on \<open>CoordinatorEntity\<close> do not reach the device handle.
\<close>

fun apply_event ::
  "(string \<Rightarrow> int option \<Rightarrow> 'h \<Rightarrow> 'h) \<Rightarrow> (string \<Rightarrow> int option \<Rightarrow> 'h \<Rightarrow> 'h)
    \<Rightarrow> event \<Rightarrow> 'h \<Rightarrow> 'h" where
  "apply_event reg unreg (Register k c) h = reg k c h"
| "apply_event reg unreg (Unregister k c) h = unreg k c h"
| "apply_event reg unreg CoordinatorEntityAdded h = h"
| "apply_event reg unreg CoordinatorEntityWillRemove h = h"

definition interest_after ::
  "(string \<Rightarrow> int option \<Rightarrow> 'h \<Rightarrow> 'h) \<Rightarrow> (string \<Rightarrow> int option \<Rightarrow> 'h \<Rightarrow> 'h)
    \<Rightarrow> event list \<Rightarrow> 'h \<Rightarrow> 'h" where
  "interest_after reg unreg es h = fold (apply_event reg unreg) es h"

subsection \<open>A sample installation\<close>

text \<open>
  A device handle with the NVR flag as given, a dual-lens model name, and two cameras
  that differ in every per-channel attribute; descriptions with and without a command key.
\<close>

definition sample_api :: "bool \<Rightarrow> Host_api" where
  "sample_api nvr =
    \<lparr> use_https = True, host = ''192.168.1.2'', port = 443, mac_address = ''ec:71:db:00:00:01'',
      nvr_name = ''Hub'', model = ''Reolink Duo PoE'', manufacturer = ''Reolink'',
      hardware_version = ''IPC_1'', sw_version = ''v3.0.0'', uid = ''9527'',
      session_active = True, is_nvr = nvr,
      camera_name = (\<lambda>c. if c = 0 then ''Front'' else ''Back''),
      camera_model = (\<lambda>c. if c = 0 then ''Lens A'' else ''Lens B''),
      camera_sw_version = (\<lambda>c. if c = 0 then ''v1'' else ''v2'') \<rparr>"

definition sample_data :: "bool \<Rightarrow> ReolinkData" where
  "sample_data nvr =
    \<lparr> ReolinkData.host = \<lparr> api = sample_api nvr, unique_id = ''ec71db000001'' \<rparr>,
      device_coordinator = \<lparr> last_update_success = True \<rparr> \<rparr>"

definition sample_channel_description ::
  "string \<Rightarrow> string option \<Rightarrow> ReolinkChannelEntityDescription" where
  "sample_channel_description k c = \<lparr> key = k, cmd_key = c, supported = (\<lambda>a ch. True) \<rparr>"

definition sample_host_description ::
  "string \<Rightarrow> string option \<Rightarrow> ReolinkHostEntityDescription" where
  "sample_host_description k c = \<lparr> key = k, cmd_key = c, supported = (\<lambda>a. True) \<rparr>"

section \<open>Properties\<close>

subsection \<open>The decimal rendering is injective and contains no separator\<close>

lemma digit_char_code:
  assumes "d < 10"
  shows "(of_char (digit_char d) :: nat) = 48 + d"
proof -
  from assms have "d = 0 \<or> d = 1 \<or> d = 2 \<or> d = 3 \<or> d = 4 \<or> d = 5 \<or> d = 6 \<or> d = 7 \<or> d = 8 \<or> d = 9"
    by arith
  then show ?thesis
    by (elim disjE) (simp_all add: digit_char_def)
qed

lemma digit_char_inj:
  assumes "a < 10" "b < 10" "digit_char a = digit_char b"
  shows "a = b"
proof -
  have "(of_char (digit_char a) :: nat) = of_char (digit_char b)" using assms(3) by simp
  with assms(1,2) show ?thesis by (simp add: digit_char_code)
qed

lemma digit_char_not_sep:
  assumes "d < 10"
  shows "digit_char d \<noteq> CHR ''_''" and "digit_char d \<noteq> CHR ''-''"
proof -
  have "(of_char (digit_char d) :: nat) \<noteq> of_char CHR ''_''"
    "(of_char (digit_char d) :: nat) \<noteq> of_char CHR ''-''"
    using assms by (simp_all add: digit_char_code)
  then show "digit_char d \<noteq> CHR ''_''" and "digit_char d \<noteq> CHR ''-''" by auto
qed

lemma str_nat_small: "n < 10 \<Longrightarrow> str_nat n = [digit_char n]"
  by (subst str_nat.simps) simp

lemma str_nat_large: "\<not> n < 10 \<Longrightarrow> str_nat n = str_nat (n div 10) @ [digit_char (n mod 10)]"
  by (subst str_nat.simps) simp

lemma str_nat_nonempty: "str_nat n \<noteq> []"
  by (cases "n < 10") (simp_all add: str_nat_small str_nat_large)

lemma str_nat_chars: "c \<in> set (str_nat n) \<Longrightarrow> c \<noteq> CHR ''_'' \<and> c \<noteq> CHR ''-''"
proof (induction n rule: str_nat.induct)
  case (1 n)
  show ?case
  proof (cases "n < 10")
    case True
    with "1.prems" have "c \<in> set [digit_char n]" by (simp only: str_nat_small [OF True])
    then have "c = digit_char n" by simp
    with True show ?thesis by (simp add: digit_char_not_sep)
  next
    case False
    with "1.prems" have "c \<in> set (str_nat (n div 10) @ [digit_char (n mod 10)])"
      by (simp only: str_nat_large [OF False])
    then have "c \<in> set (str_nat (n div 10)) \<or> c = digit_char (n mod 10)"
      by auto
    then show ?thesis
    proof
      assume "c \<in> set (str_nat (n div 10))"
      with False show ?thesis by (rule "1.IH")
    next
      assume "c = digit_char (n mod 10)"
      then show ?thesis by (simp add: digit_char_not_sep)
    qed
  qed
qed

lemma str_nat_inj: "str_nat n = str_nat m \<Longrightarrow> n = m"
proof (induction n arbitrary: m rule: str_nat.induct)
  case (1 n)
  show ?case
  proof (cases "n < 10")
    case n: True
    show ?thesis
    proof (cases "m < 10")
      case True
      with n "1.prems" have "[digit_char n] = [digit_char m]"
        by (simp only: str_nat_small [OF n] str_nat_small [OF True])
      then have "digit_char n = digit_char m" by simp
      with n True show ?thesis by (rule digit_char_inj)
    next
      case False
      with n "1.prems" have "[digit_char n] = str_nat (m div 10) @ [digit_char (m mod 10)]"
        by (simp only: str_nat_small [OF n] str_nat_large [OF False])
      then have "str_nat (m div 10) = []" by simp
      then show ?thesis by (simp add: str_nat_nonempty)
    qed
  next
    case n: False
    show ?thesis
    proof (cases "m < 10")
      case True
      with n "1.prems" have "str_nat (n div 10) @ [digit_char (n mod 10)] = [digit_char m]"
        by (simp only: str_nat_small [OF True] str_nat_large [OF n])
      then have "str_nat (n div 10) = []" by simp
      then show ?thesis by (simp add: str_nat_nonempty)
    next
      case False
      have en: "str_nat n = str_nat (n div 10) @ [digit_char (n mod 10)]"
        using n by (rule str_nat_large)
      have em: "str_nat m = str_nat (m div 10) @ [digit_char (m mod 10)]"
        using False by (rule str_nat_large)
      from "1.prems" have "str_nat (n div 10) @ [digit_char (n mod 10)]
          = str_nat (m div 10) @ [digit_char (m mod 10)]"
        by (simp only: en em)
      then have p: "str_nat (n div 10) = str_nat (m div 10)"
        and d: "digit_char (n mod 10) = digit_char (m mod 10)"
        by simp_all
      from n p have q: "n div 10 = m div 10" by (rule "1.IH")
      have r: "n mod 10 = m mod 10" using d by (intro digit_char_inj) simp_all
      have "n = 10 * (n div 10) + n mod 10" by simp
      also have "\<dots> = 10 * (m div 10) + m mod 10" using q r by simp
      also have "\<dots> = m" by simp
      finally show ?thesis .
    qed
  qed
qed

lemma str_nat_hd: "hd (str_nat n) \<noteq> CHR ''-''"
proof -
  have "hd (str_nat n) \<in> set (str_nat n)" by (simp add: str_nat_nonempty)
  then show ?thesis by (simp add: str_nat_chars)
qed

lemma str_int_inj: "str_int a = str_int b \<Longrightarrow> a = b"
proof -
  assume eq: "str_int a = str_int b"
  show ?thesis
  proof (cases "a < 0")
    case a: True
    show ?thesis
    proof (cases "b < 0")
      case True
      with a eq have "str_nat (nat (- a)) = str_nat (nat (- b))" by (simp add: str_int_def)
      then have "nat (- a) = nat (- b)" by (rule str_nat_inj)
      with a True show ?thesis by simp
    next
      case False
      with a eq have "CHR ''-'' # str_nat (nat (- a)) = str_nat (nat b)" by (simp add: str_int_def)
      then have "hd (str_nat (nat b)) = hd (CHR ''-'' # str_nat (nat (- a)))" by simp
      then show ?thesis by (simp add: str_nat_hd)
    qed
  next
    case a: False
    show ?thesis
    proof (cases "b < 0")
      case True
      with a eq have "str_nat (nat a) = CHR ''-'' # str_nat (nat (- b))" by (simp add: str_int_def)
      then have "hd (str_nat (nat a)) = hd (CHR ''-'' # str_nat (nat (- b)))" by simp
      then show ?thesis by (simp add: str_nat_hd)
    next
      case False
      with a eq have "str_nat (nat a) = str_nat (nat b)" by (simp add: str_int_def)
      then have "nat a = nat b" by (rule str_nat_inj)
      with a False show ?thesis by simp
    qed
  qed
qed

lemma str_int_no_underscore: "CHR ''_'' \<notin> set (str_int i)"
  using str_nat_chars [of "CHR ''_''"] by (auto simp: str_int_def)

lemma split_at_sep:
  "c \<notin> set xs \<Longrightarrow> c \<notin> set xs' \<Longrightarrow> xs @ c # ys = xs' @ c # ys'
    \<Longrightarrow> xs = xs' \<and> ys = ys'"
proof (induction xs arbitrary: xs')
  case Nil
  then show ?case by (cases xs') simp_all
next
  case (Cons x xs)
  show ?case
  proof (cases xs')
    case Nil
    with Cons.prems show ?thesis by simp
  next
    case (Cons a as)
    with Cons.prems have "c \<notin> set xs" "c \<notin> set as" "xs @ c # ys = as @ c # ys'" "x = a"
      by simp_all
    with Cons.IH [of as] Cons show ?thesis by simp
  qed
qed

lemma str_int_sep_eq:
  "str_int a @ ''_'' @ k1 = str_int b @ ''_'' @ k2 \<longleftrightarrow> a = b \<and> k1 = k2"
proof
  assume "str_int a @ ''_'' @ k1 = str_int b @ ''_'' @ k2"
  then have "str_int a @ CHR ''_'' # k1 = str_int b @ CHR ''_'' # k2" by simp
  with str_int_no_underscore [of a] str_int_no_underscore [of b]
  have "str_int a = str_int b \<and> k1 = k2" by (rule split_at_sep)
  then show "a = b \<and> k1 = k2" by (simp add: str_int_inj)
qed simp

subsection \<open>What the constructors and the hooks compute\<close>

lemmas init_defs =
  ReolinkBaseCoordinatorEntity_init_def ReolinkHostCoordinatorEntity_init_def
  ReolinkChannelCoordinatorEntity_init_def
  ReolinkBaseCoordinatorEntity.defs ReolinkHostCoordinatorEntity.defs
  ReolinkChannelCoordinatorEntity.defs Let_def

lemma base_init_host:
  "ReolinkBaseCoordinatorEntity.host (ReolinkBaseCoordinatorEntity_init rd co) = ReolinkData.host rd"
  by (simp add: ReolinkBaseCoordinatorEntity_init_def Let_def)

lemma host_init_unique_id:
  "attr_unique_id (ReolinkHostCoordinatorEntity_init rd d)
    = unique_id (ReolinkData.host rd) @ ''_'' @ key d"
  by (simp add: init_defs)

lemma host_init_description:
  "entity_description (ReolinkHostCoordinatorEntity_init rd d) = d"
  by (simp add: init_defs)

lemma host_init_device_info:
  "attr_device_info (ReolinkHostCoordinatorEntity_init rd d)
    = attr_device_info (ReolinkBaseCoordinatorEntity_init rd (device_coordinator rd))"
  by (simp add: init_defs)

lemma channel_init_unique_id:
  "attr_unique_id (ReolinkChannelCoordinatorEntity_init D rd d ch)
    = unique_id (ReolinkData.host rd) @ ''_'' @ str_int ch @ ''_'' @ key d"
  by (simp add: init_defs)

lemma channel_init_description:
  "entity_description (ReolinkChannelCoordinatorEntity_init D rd d ch) = d"
  by (simp add: init_defs)

lemma channel_init_channel:
  "channel (ReolinkChannelCoordinatorEntity_init D rd d ch) = ch"
  by (simp add: init_defs)

lemma channel_init_device_info_single:
  "\<not> is_nvr (api (ReolinkData.host rd)) \<Longrightarrow>
   attr_device_info (ReolinkChannelCoordinatorEntity_init D rd d ch)
    = attr_device_info (ReolinkBaseCoordinatorEntity_init rd co)"
  by (simp add: init_defs)

lemma channel_init_device_info_nvr:
  "is_nvr (api (ReolinkData.host rd)) \<Longrightarrow>
   attr_device_info (ReolinkChannelCoordinatorEntity_init D rd d ch)
    = (let h = ReolinkData.host rd;
           dev_ch = (if Host_api.model (api h) \<in> D then 0 else ch)
       in \<lparr> identifiers = Some {(DOMAIN, unique_id h @ ''_ch'' @ str_int dev_ch)},
            connections = None,
            via_device = Some (DOMAIN, unique_id h),
            name = Some (camera_name (api h) dev_ch),
            model = Some (camera_model (api h) dev_ch),
            manufacturer = Some (Host_api.manufacturer (api h)),
            hw_version = None,
            sw_version = Some (camera_sw_version (api h) dev_ch),
            serial_number = None,
            configuration_url = Some ((if use_https (api h) then ''https'' else ''http'')
              @ ''://'' @ Host_api.host (api h) @ '':'' @ str_int (port (api h))) \<rparr>)"
  by (simp add: init_defs)

lemma base_init_device_info:
  "attr_device_info (ReolinkBaseCoordinatorEntity_init rd co)
    = (let h = ReolinkData.host rd
       in \<lparr> identifiers = Some {(DOMAIN, unique_id h)},
            connections = Some {(CONNECTION_NETWORK_MAC, mac_address (api h))},
            via_device = None,
            name = Some (nvr_name (api h)),
            model = Some (Host_api.model (api h)),
            manufacturer = Some (Host_api.manufacturer (api h)),
            hw_version = Some (hardware_version (api h)),
            sw_version = Some (Host_api.sw_version (api h)),
            serial_number = Some (uid (api h)),
            configuration_url = Some ((if use_https (api h) then ''https'' else ''http'')
              @ ''://'' @ Host_api.host (api h) @ '':'' @ str_int (port (api h))) \<rparr>)"
  by (simp add: init_defs)

lemmas hook_defs =
  ReolinkHostCoordinatorEntity_async_added_to_hass_def
  ReolinkHostCoordinatorEntity_async_will_remove_from_hass_def
  ReolinkChannelCoordinatorEntity_async_added_to_hass_def
  ReolinkChannelCoordinatorEntity_async_will_remove_from_hass_def
  CoordinatorEntity_async_added_to_hass_def CoordinatorEntity_async_will_remove_from_hass_def
  async_register_update_cmd_def async_unregister_update_cmd_def Let_def

lemma registrations_append: "registrations (xs @ ys) = registrations xs @ registrations ys"
  by (induction xs rule: registrations.induct) simp_all

lemma unregistrations_append: "unregistrations (xs @ ys) = unregistrations xs @ unregistrations ys"
  by (induction xs rule: unregistrations.induct) simp_all

lemma interest_after_append:
  "interest_after reg unreg (xs @ ys) h = interest_after reg unreg ys (interest_after reg unreg xs h)"
  by (simp add: interest_after_def)

lemma host_added_trace:
  "ReolinkHostCoordinatorEntity_async_added_to_hass self s
    = s @ CoordinatorEntityAdded #
        (case cmd_key (entity_description self) of None \<Rightarrow> [] | Some k \<Rightarrow> [Register k None])"
  by (simp add: hook_defs split: option.split)

lemma host_remove_trace:
  "ReolinkHostCoordinatorEntity_async_will_remove_from_hass self s
    = s @ (case cmd_key (entity_description self) of None \<Rightarrow> [] | Some k \<Rightarrow> [Unregister k None])
        @ [CoordinatorEntityWillRemove]"
  by (simp add: hook_defs split: option.split)

lemma channel_added_trace:
  "ReolinkChannelCoordinatorEntity_async_added_to_hass self s
    = s @ CoordinatorEntityAdded #
        (case cmd_key (entity_description self) of None \<Rightarrow> []
         | Some k \<Rightarrow> [Register k None, Register k (Some (channel self))])"
  by (simp add: hook_defs split: option.split)

lemma channel_remove_trace:
  "ReolinkChannelCoordinatorEntity_async_will_remove_from_hass self s
    = s @ (case cmd_key (entity_description self) of None \<Rightarrow> []
           | Some k \<Rightarrow> [Unregister k (Some (channel self)), Unregister k None])
        @ [CoordinatorEntityWillRemove]"
  by (simp add: hook_defs split: option.split)

subsection \<open>The sample installation\<close>

lemma sample_channel_description_simps:
  "key (sample_channel_description k c) = k" "cmd_key (sample_channel_description k c) = c"
  by (simp_all add: sample_channel_description_def)

lemma sample_host_description_simps:
  "key (sample_host_description k c) = k" "cmd_key (sample_host_description k c) = c"
  by (simp_all add: sample_host_description_def)

subsection \<open>Registration on attach\<close>

text \<open>
  Claim C1, amended.  When the description's command key is \<open>k\<close>, the attach hook of a
  host-scoped entity issues exactly one register call, \<open>register(k)\<close>; the attach hook of a
  channel-scoped entity first runs the host-scoped hook through \<open>super()\<close> and so issues
  two register calls, \<open>register(k)\<close> followed by \<open>register(k, channel)\<close>.  Neither issues
  an unregister call.
\<close>

theorem attach_registers_per_scope:
  fixes h :: "'f ReolinkHostCoordinatorEntity" and c :: ReolinkChannelCoordinatorEntity
  shows "(cmd_key (entity_description h) = Some k \<longrightarrow>
            registrations (ReolinkHostCoordinatorEntity_async_added_to_hass h s)
              = registrations s @ [(k, None)]
          \<and> unregistrations (ReolinkHostCoordinatorEntity_async_added_to_hass h s)
              = unregistrations s)
       \<and> (cmd_key (entity_description c) = Some k \<longrightarrow>
            registrations (ReolinkChannelCoordinatorEntity_async_added_to_hass c s)
              = registrations s @ [(k, None), (k, Some (channel c))]
          \<and> unregistrations (ReolinkChannelCoordinatorEntity_async_added_to_hass c s)
              = unregistrations s)"
  by (simp add: host_added_trace channel_added_trace registrations_append unregistrations_append)

text \<open>The two attach hooks on the sample installation.\<close>

theorem attach_registers_per_scope_witness:
  "cmd_key (entity_description (ReolinkHostCoordinatorEntity_init (sample_data True)
      (sample_host_description ''firmware'' (Some ''GetDevInfo'')))) = Some ''GetDevInfo''
   \<and> registrations (ReolinkHostCoordinatorEntity_async_added_to_hass
        (ReolinkHostCoordinatorEntity_init (sample_data True)
          (sample_host_description ''firmware'' (Some ''GetDevInfo''))) [])
       = [(''GetDevInfo'', None)]
   \<and> cmd_key (entity_description (ReolinkChannelCoordinatorEntity_init {} (sample_data True)
      (sample_channel_description ''motion'' (Some ''GetDevInfo'')) 1)) = Some ''GetDevInfo''
   \<and> registrations (ReolinkChannelCoordinatorEntity_async_added_to_hass
        (ReolinkChannelCoordinatorEntity_init {} (sample_data True)
          (sample_channel_description ''motion'' (Some ''GetDevInfo'')) 1) [])
       = [(''GetDevInfo'', None), (''GetDevInfo'', Some 1)]"
  using attach_registers_per_scope [where
    h = "ReolinkHostCoordinatorEntity_init (sample_data True)
      (sample_host_description ''firmware'' (Some ''GetDevInfo''))"
    and k = "''GetDevInfo''"
    and c = "ReolinkChannelCoordinatorEntity_init {} (sample_data True)
      (sample_channel_description ''motion'' (Some ''GetDevInfo'')) 1"
    and s = "[]"]
  by (simp add: host_init_description channel_init_description channel_init_channel
      sample_channel_description_simps sample_host_description_simps)

text \<open>
  Claim C1 as stated fails for a channel-scoped entity: on channel 0 with command key
  \<open>GetMdState\<close> the attach hook issues both the host-scoped and the channel-scoped call.
\<close>

theorem channel_attach_registers_twice:
  "cmd_key (entity_description (ReolinkChannelCoordinatorEntity_init {} (sample_data True)
      (sample_channel_description ''motion'' (Some ''GetMdState'')) 0)) = Some ''GetMdState''
   \<and> registrations (ReolinkChannelCoordinatorEntity_async_added_to_hass
        (ReolinkChannelCoordinatorEntity_init {} (sample_data True)
          (sample_channel_description ''motion'' (Some ''GetMdState'')) 0) [])
       = [(''GetMdState'', None), (''GetMdState'', Some 0)]
   \<and> length (registrations (ReolinkChannelCoordinatorEntity_async_added_to_hass
        (ReolinkChannelCoordinatorEntity_init {} (sample_data True)
          (sample_channel_description ''motion'' (Some ''GetMdState'')) 0) [])) \<noteq> 1"
  by (simp add: channel_added_trace channel_init_description channel_init_channel
      sample_channel_description_simps)

subsection \<open>Pairing of register and unregister calls\<close>

text \<open>
  Claim C2.  Each hook only appends calls to the trace it is run on.  The attach hook
  issues register calls and no unregister call; the remove hook issues unregister calls
  and no register call.  The unregister calls that the remove hook issues carry exactly
  the (command key, optional channel) arguments of the register calls that the attach hook
  issues, each once: the two argument lists are equal as multisets, and the remove hook
  issues them in the reverse order of the attach hook (for a channel-scoped entity the
  channel-scoped call is registered last and unregistered first).  So it is over one
  attach-then-remove lifecycle started on any trace.
\<close>

theorem lifecycle_pairs_calls:
  fixes h :: "'f ReolinkHostCoordinatorEntity" and c :: ReolinkChannelCoordinatorEntity
  shows "registrations (ReolinkHostCoordinatorEntity_async_added_to_hass h s)
           = registrations s @ registrations (ReolinkHostCoordinatorEntity_async_added_to_hass h [])
       \<and> unregistrations (ReolinkHostCoordinatorEntity_async_added_to_hass h s) = unregistrations s
       \<and> registrations (ReolinkHostCoordinatorEntity_async_will_remove_from_hass h s) = registrations s
       \<and> unregistrations (ReolinkHostCoordinatorEntity_async_will_remove_from_hass h s)
           = unregistrations s @ rev (registrations (ReolinkHostCoordinatorEntity_async_added_to_hass h []))
       \<and> registrations (ReolinkHostCoordinatorEntity_async_added_to_hass h [])
           = (case cmd_key (entity_description h) of None \<Rightarrow> [] | Some k \<Rightarrow> [(k, None)])
       \<and> mset (unregistrations (ReolinkHostCoordinatorEntity_async_will_remove_from_hass h []))
           = mset (registrations (ReolinkHostCoordinatorEntity_async_added_to_hass h []))
       \<and> registrations (ReolinkHostCoordinatorEntity_async_will_remove_from_hass h (ReolinkHostCoordinatorEntity_async_added_to_hass h s))
           = registrations s @ registrations (ReolinkHostCoordinatorEntity_async_added_to_hass h [])
       \<and> unregistrations (ReolinkHostCoordinatorEntity_async_will_remove_from_hass h (ReolinkHostCoordinatorEntity_async_added_to_hass h s))
           = unregistrations s @ rev (registrations (ReolinkHostCoordinatorEntity_async_added_to_hass h []))
       \<and> registrations (ReolinkChannelCoordinatorEntity_async_added_to_hass c s)
           = registrations s @ registrations (ReolinkChannelCoordinatorEntity_async_added_to_hass c [])
       \<and> unregistrations (ReolinkChannelCoordinatorEntity_async_added_to_hass c s) = unregistrations s
       \<and> registrations (ReolinkChannelCoordinatorEntity_async_will_remove_from_hass c s) = registrations s
       \<and> unregistrations (ReolinkChannelCoordinatorEntity_async_will_remove_from_hass c s)
           = unregistrations s @ rev (registrations (ReolinkChannelCoordinatorEntity_async_added_to_hass c []))
       \<and> registrations (ReolinkChannelCoordinatorEntity_async_added_to_hass c [])
           = (case cmd_key (entity_description c) of None \<Rightarrow> [] | Some k \<Rightarrow> [(k, None), (k, Some (channel c))])
       \<and> mset (unregistrations (ReolinkChannelCoordinatorEntity_async_will_remove_from_hass c []))
           = mset (registrations (ReolinkChannelCoordinatorEntity_async_added_to_hass c []))
       \<and> registrations (ReolinkChannelCoordinatorEntity_async_will_remove_from_hass c (ReolinkChannelCoordinatorEntity_async_added_to_hass c s))
           = registrations s @ registrations (ReolinkChannelCoordinatorEntity_async_added_to_hass c [])
       \<and> unregistrations (ReolinkChannelCoordinatorEntity_async_will_remove_from_hass c (ReolinkChannelCoordinatorEntity_async_added_to_hass c s))
           = unregistrations s @ rev (registrations (ReolinkChannelCoordinatorEntity_async_added_to_hass c []))"
  by (simp add: host_added_trace host_remove_trace channel_added_trace channel_remove_trace
      registrations_append unregistrations_append split: option.split)

text \<open>The two lifecycles on the sample installation, hook by hook.\<close>

theorem lifecycle_pairs_calls_sample:
  "registrations (ReolinkHostCoordinatorEntity_async_added_to_hass
        (ReolinkHostCoordinatorEntity_init (sample_data True)
          (sample_host_description ''firmware'' (Some ''GetDevInfo''))) [])
       = [(''GetDevInfo'', None)]
   \<and> unregistrations (ReolinkHostCoordinatorEntity_async_will_remove_from_hass
        (ReolinkHostCoordinatorEntity_init (sample_data True)
          (sample_host_description ''firmware'' (Some ''GetDevInfo''))) [])
       = [(''GetDevInfo'', None)]
   \<and> registrations (ReolinkChannelCoordinatorEntity_async_added_to_hass
        (ReolinkChannelCoordinatorEntity_init {} (sample_data True)
          (sample_channel_description ''motion'' (Some ''GetMdState'')) 1) [])
       = [(''GetMdState'', None), (''GetMdState'', Some 1)]
   \<and> unregistrations (ReolinkChannelCoordinatorEntity_async_will_remove_from_hass
        (ReolinkChannelCoordinatorEntity_init {} (sample_data True)
          (sample_channel_description ''motion'' (Some ''GetMdState'')) 1) [])
       = [(''GetMdState'', Some 1), (''GetMdState'', None)]"
  using lifecycle_pairs_calls [where
    h = "ReolinkHostCoordinatorEntity_init (sample_data True)
      (sample_host_description ''firmware'' (Some ''GetDevInfo''))"
    and c = "ReolinkChannelCoordinatorEntity_init {} (sample_data True)
      (sample_channel_description ''motion'' (Some ''GetMdState'')) 1"
    and s = "[]"]
  by (simp add: host_init_description channel_init_description channel_init_channel
      sample_channel_description_simps sample_host_description_simps)

subsection \<open>Availability\<close>

text \<open>
  Claim C3.  For every entity \<open>available\<close> returns true if and only if the session flag of
  the device handle and the coordinator's judgment are both true, so it is false whenever
  either is false, whatever the other; the trace of calls is returned unchanged.
\<close>

theorem available_iff_session_and_coordinator:
  "available self s =
    (session_active (api (ReolinkBaseCoordinatorEntity.host self))
       \<and> last_update_success (coordinator self), s)"
  by (simp add: available_def CoordinatorEntity_available_def)

subsection \<open>Entities without a command key\<close>

text \<open>
  Claim C8.  When the description's command key is null, the attach hook and the remove
  hook of a host-scoped and of a channel-scoped entity add nothing to the trace but the
  call on the parent class, hence no register or unregister call, and the subscription
  interest set of the device handle is what it was, whatever register and unregister do
  to it.
\<close>

theorem no_command_key_no_calls:
  fixes h :: "'f ReolinkHostCoordinatorEntity" and c :: ReolinkChannelCoordinatorEntity
  shows "(cmd_key (entity_description h) = None \<longrightarrow>
            ReolinkHostCoordinatorEntity_async_added_to_hass h s = s @ [CoordinatorEntityAdded]
          \<and> ReolinkHostCoordinatorEntity_async_will_remove_from_hass h s
              = s @ [CoordinatorEntityWillRemove]
          \<and> interest_after reg unreg (ReolinkHostCoordinatorEntity_async_added_to_hass h s) i
              = interest_after reg unreg s i
          \<and> interest_after reg unreg (ReolinkHostCoordinatorEntity_async_will_remove_from_hass h s) i
              = interest_after reg unreg s i)
       \<and> (cmd_key (entity_description c) = None \<longrightarrow>
            ReolinkChannelCoordinatorEntity_async_added_to_hass c s = s @ [CoordinatorEntityAdded]
          \<and> ReolinkChannelCoordinatorEntity_async_will_remove_from_hass c s
              = s @ [CoordinatorEntityWillRemove]
          \<and> interest_after reg unreg (ReolinkChannelCoordinatorEntity_async_added_to_hass c s) i
              = interest_after reg unreg s i
          \<and> interest_after reg unreg (ReolinkChannelCoordinatorEntity_async_will_remove_from_hass c s) i
              = interest_after reg unreg s i)"
  by (simp add: host_added_trace host_remove_trace channel_added_trace channel_remove_trace
      interest_after_def)

text \<open>Entities of the sample installation without a command key, on a counting interest set.\<close>

theorem no_command_key_no_calls_witness:
  "cmd_key (entity_description (ReolinkHostCoordinatorEntity_init (sample_data True)
      (sample_host_description ''firmware'' None))) = None
   \<and> ReolinkHostCoordinatorEntity_async_added_to_hass
        (ReolinkHostCoordinatorEntity_init (sample_data True)
          (sample_host_description ''firmware'' None)) [] = [CoordinatorEntityAdded]
   \<and> cmd_key (entity_description (ReolinkChannelCoordinatorEntity_init {} (sample_data True)
      (sample_channel_description ''motion'' None) 1)) = None
   \<and> ReolinkChannelCoordinatorEntity_async_will_remove_from_hass
        (ReolinkChannelCoordinatorEntity_init {} (sample_data True)
          (sample_channel_description ''motion'' None) 1) [] = [CoordinatorEntityWillRemove]
   \<and> interest_after (\<lambda>k c n. Suc n) (\<lambda>k c n. n - 1)
        (ReolinkChannelCoordinatorEntity_async_added_to_hass
          (ReolinkChannelCoordinatorEntity_init {} (sample_data True)
            (sample_channel_description ''motion'' None) 1) []) (0::nat) = 0"
  using no_command_key_no_calls [where
    h = "ReolinkHostCoordinatorEntity_init (sample_data True)
      (sample_host_description ''firmware'' None)"
    and s = "[]" and reg = "\<lambda>k c n. Suc n" and unreg = "\<lambda>k c n. n - 1" and i = "0::nat"
    and c = "ReolinkChannelCoordinatorEntity_init {} (sample_data True)
      (sample_channel_description ''motion'' None) 1"]
  by (simp add: host_init_description channel_init_description
      sample_channel_description_simps sample_host_description_simps interest_after_def)

subsection \<open>Removal without a prior attach\<close>

text \<open>
  Claim C10.  When the description's command key is \<open>k\<close>, the remove hook appends its
  unregister calls to any trace, so also to one in which the attach hook never ran: the
  calls depend on the description (and, in the channel class, the stored channel) only,
  and from the empty trace the result holds unregister calls and no register call.
\<close>

theorem remove_unregisters_from_any_trace:
  fixes h :: "'f ReolinkHostCoordinatorEntity" and c :: ReolinkChannelCoordinatorEntity
  shows "(cmd_key (entity_description h) = Some k \<longrightarrow>
            ReolinkHostCoordinatorEntity_async_will_remove_from_hass h s
              = s @ [Unregister k None, CoordinatorEntityWillRemove]
          \<and> registrations (ReolinkHostCoordinatorEntity_async_will_remove_from_hass h []) = []
          \<and> unregistrations (ReolinkHostCoordinatorEntity_async_will_remove_from_hass h [])
              = [(k, None)])
       \<and> (cmd_key (entity_description c) = Some k \<longrightarrow>
            ReolinkChannelCoordinatorEntity_async_will_remove_from_hass c s
              = s @ [Unregister k (Some (channel c)), Unregister k None,
                     CoordinatorEntityWillRemove]
          \<and> registrations (ReolinkChannelCoordinatorEntity_async_will_remove_from_hass c []) = []
          \<and> unregistrations (ReolinkChannelCoordinatorEntity_async_will_remove_from_hass c [])
              = [(k, Some (channel c)), (k, None)])"
  by (simp add: host_remove_trace channel_remove_trace)

text \<open>The remove hooks of the sample installation, run on the empty trace.\<close>

theorem remove_unregisters_from_any_trace_witness:
  "cmd_key (entity_description (ReolinkHostCoordinatorEntity_init (sample_data True)
      (sample_host_description ''firmware'' (Some ''GetDevInfo'')))) = Some ''GetDevInfo''
   \<and> ReolinkHostCoordinatorEntity_async_will_remove_from_hass
        (ReolinkHostCoordinatorEntity_init (sample_data True)
          (sample_host_description ''firmware'' (Some ''GetDevInfo''))) []
       = [Unregister ''GetDevInfo'' None, CoordinatorEntityWillRemove]
   \<and> cmd_key (entity_description (ReolinkChannelCoordinatorEntity_init {} (sample_data True)
      (sample_channel_description ''motion'' (Some ''GetDevInfo'')) 1)) = Some ''GetDevInfo''
   \<and> ReolinkChannelCoordinatorEntity_async_will_remove_from_hass
        (ReolinkChannelCoordinatorEntity_init {} (sample_data True)
          (sample_channel_description ''motion'' (Some ''GetDevInfo'')) 1) []
       = [Unregister ''GetDevInfo'' (Some 1), Unregister ''GetDevInfo'' None,
          CoordinatorEntityWillRemove]"
  using remove_unregisters_from_any_trace [where
    h = "ReolinkHostCoordinatorEntity_init (sample_data True)
      (sample_host_description ''firmware'' (Some ''GetDevInfo''))"
    and k = "''GetDevInfo''" and s = "[]"
    and c = "ReolinkChannelCoordinatorEntity_init {} (sample_data True)
      (sample_channel_description ''motion'' (Some ''GetDevInfo'')) 1"]
  by (simp add: host_init_description channel_init_description channel_init_channel
      sample_channel_description_simps sample_host_description_simps)

subsection \<open>More on the sample installation\<close>

lemma str_int_0: "str_int 0 = ''0''"
  by (simp add: str_int_def str_nat_small digit_char_def)

lemma str_int_1: "str_int 1 = ''1''"
  by (simp add: str_int_def str_nat_small digit_char_def)

lemma sample_data_simps:
  "unique_id (ReolinkData.host (sample_data nvr)) = ''ec71db000001''"
  "is_nvr (api (ReolinkData.host (sample_data nvr))) = nvr"
  "Host_api.model (api (ReolinkData.host (sample_data nvr))) = ''Reolink Duo PoE''"
  "nvr_name (api (ReolinkData.host (sample_data nvr))) = ''Hub''"
  "camera_name (api (ReolinkData.host (sample_data nvr))) 0 = ''Front''"
  "camera_name (api (ReolinkData.host (sample_data nvr))) 1 = ''Back''"
  "use_https (api (ReolinkData.host (sample_data nvr))) = True"
  by (simp_all add: sample_data_def sample_api_def)

subsection \<open>Device identity of a channel entity on a single camera\<close>

text \<open>
  Claim C6.  For every channel entity on a device whose NVR flag is false, the device
  identity record is the host-level record that the base class derives, field for field
  (the records are equal), and so the record of any host entity of the same device.
\<close>

theorem single_camera_channel_identity_is_host_identity:
  "\<not> is_nvr (api (ReolinkData.host rd)) \<Longrightarrow>
     attr_device_info (ReolinkChannelCoordinatorEntity_init D rd d ch)
       = attr_device_info (ReolinkBaseCoordinatorEntity_init rd co)
   \<and> attr_device_info (ReolinkChannelCoordinatorEntity_init D rd d ch)
       = attr_device_info (ReolinkHostCoordinatorEntity_init rd d')"
  by (simp add: channel_init_device_info_single host_init_device_info)

text \<open>The sample installation with the NVR flag off.\<close>

theorem single_camera_channel_identity_is_host_identity_witness:
  "\<not> is_nvr (api (ReolinkData.host (sample_data False)))
   \<and> attr_device_info (ReolinkChannelCoordinatorEntity_init {''Reolink Duo PoE''}
        (sample_data False) (sample_channel_description ''motion'' None) 1)
       = attr_device_info (ReolinkBaseCoordinatorEntity_init (sample_data False)
           (device_coordinator (sample_data False)))
   \<and> name (attr_device_info (ReolinkChannelCoordinatorEntity_init {''Reolink Duo PoE''}
        (sample_data False) (sample_channel_description ''motion'' None) 1)) = Some ''Hub''"
  using single_camera_channel_identity_is_host_identity [where
    rd = "sample_data False" and D = "{''Reolink Duo PoE''}"
    and d = "sample_channel_description ''motion'' None" and ch = 1
    and co = "device_coordinator (sample_data False)"
    and d' = "sample_channel_description ''motion'' None"]
  by (simp add: sample_data_simps base_init_device_info Let_def)

subsection \<open>Device identity of a channel entity on a dual-lens model\<close>

text \<open>
  Claim C5, amended.  For every channel entity on a device whose model is in the dual-lens
  model set and whose NVR flag is true, the device identity record (identifier suffix,
  camera name, camera model, camera firmware version) is computed for channel 0, whatever
  channel was requested at construction.  (With the NVR flag false the record is the
  host-level one, see C6.)
\<close>

theorem dual_lens_nvr_identity_is_channel_0:
  "Host_api.model (api (ReolinkData.host rd)) \<in> D \<Longrightarrow> is_nvr (api (ReolinkData.host rd)) \<Longrightarrow>
     attr_device_info (ReolinkChannelCoordinatorEntity_init D rd d ch)
       = \<lparr> identifiers = Some {(DOMAIN, unique_id (ReolinkData.host rd) @ ''_ch0'')},
           connections = None,
           via_device = Some (DOMAIN, unique_id (ReolinkData.host rd)),
           name = Some (camera_name (api (ReolinkData.host rd)) 0),
           model = Some (camera_model (api (ReolinkData.host rd)) 0),
           manufacturer = Some (Host_api.manufacturer (api (ReolinkData.host rd))),
           hw_version = None,
           sw_version = Some (camera_sw_version (api (ReolinkData.host rd)) 0),
           serial_number = None,
           configuration_url = Some (conf_url (ReolinkBaseCoordinatorEntity_init rd
             (device_coordinator rd))) \<rparr>"
  by (simp add: channel_init_device_info_nvr str_int_0 ReolinkBaseCoordinatorEntity_init_def Let_def)

text \<open>The second lens of the sample installation with the NVR flag on.\<close>

theorem dual_lens_nvr_identity_is_channel_0_witness:
  "Host_api.model (api (ReolinkData.host (sample_data True))) \<in> {''Reolink Duo PoE''}
   \<and> is_nvr (api (ReolinkData.host (sample_data True)))
   \<and> name (attr_device_info (ReolinkChannelCoordinatorEntity_init {''Reolink Duo PoE''}
        (sample_data True) (sample_channel_description ''motion'' None) 1)) = Some ''Front''
   \<and> identifiers (attr_device_info (ReolinkChannelCoordinatorEntity_init {''Reolink Duo PoE''}
        (sample_data True) (sample_channel_description ''motion'' None) 1))
       = Some {(DOMAIN, ''ec71db000001_ch0'')}"
  using dual_lens_nvr_identity_is_channel_0 [where
    rd = "sample_data True" and D = "{''Reolink Duo PoE''}"
    and d = "sample_channel_description ''motion'' None" and ch = 1]
  by (simp add: sample_data_simps)

text \<open>
  Claim C5 as stated fails when the NVR flag is false: the record of a channel entity of the
  dual-lens sample device then carries the host's name and the bare identifier, not the
  name of camera 0 and the identifier with suffix \<open>_ch0\<close>.
\<close>

theorem dual_lens_single_camera_identity_not_channel_0:
  "Host_api.model (api (ReolinkData.host (sample_data False))) \<in> {''Reolink Duo PoE''}
   \<and> name (attr_device_info (ReolinkChannelCoordinatorEntity_init {''Reolink Duo PoE''}
        (sample_data False) (sample_channel_description ''motion'' None) 1))
       \<noteq> Some (camera_name (api (ReolinkData.host (sample_data False))) 0)
   \<and> identifiers (attr_device_info (ReolinkChannelCoordinatorEntity_init {''Reolink Duo PoE''}
        (sample_data False) (sample_channel_description ''motion'' None) 1))
       \<noteq> Some {(DOMAIN, unique_id (ReolinkData.host (sample_data False)) @ ''_ch0'')}"
  by (simp add: sample_data_simps base_init_device_info Let_def
      channel_init_device_info_single [where co = "device_coordinator (sample_data False)"])

subsection \<open>The fields of the device identity record\<close>

text \<open>
  Claim C7, amended.  In host mode the record holds an identifier, a MAC connection, a name,
  a model, a manufacturer, a hardware version, a firmware version, a serial and a
  configuration URL.  In channel mode it always holds an identifier, a name, a model, the
  manufacturer, a firmware version and the configuration URL; on a device whose NVR flag
  is true it holds no MAC connection, no hardware version and no serial, and names the
  NVR as the device it is reached through; on a device whose NVR flag is false it is the
  host-mode record.  In both modes the configuration URL is scheme://host:port, the scheme
  being https exactly when the protocol-scheme flag is set and http otherwise.
\<close>

theorem device_info_fields_per_mode:
  "attr_device_info (ReolinkHostCoordinatorEntity_init rd d)
     = \<lparr> identifiers = Some {(DOMAIN, unique_id (ReolinkData.host rd))},
         connections = Some {(CONNECTION_NETWORK_MAC, mac_address (api (ReolinkData.host rd)))},
         via_device = None,
         name = Some (nvr_name (api (ReolinkData.host rd))),
         model = Some (Host_api.model (api (ReolinkData.host rd))),
         manufacturer = Some (Host_api.manufacturer (api (ReolinkData.host rd))),
         hw_version = Some (hardware_version (api (ReolinkData.host rd))),
         sw_version = Some (Host_api.sw_version (api (ReolinkData.host rd))),
         serial_number = Some (uid (api (ReolinkData.host rd))),
         configuration_url = Some
           ((if use_https (api (ReolinkData.host rd)) then ''https'' else ''http'') @ ''://''
             @ Host_api.host (api (ReolinkData.host rd)) @ '':''
             @ str_int (port (api (ReolinkData.host rd)))) \<rparr>
   \<and> configuration_url (attr_device_info (ReolinkChannelCoordinatorEntity_init D rd c ch))
       = Some ((if use_https (api (ReolinkData.host rd)) then ''https'' else ''http'') @ ''://''
             @ Host_api.host (api (ReolinkData.host rd)) @ '':''
             @ str_int (port (api (ReolinkData.host rd))))
   \<and> identifiers (attr_device_info (ReolinkChannelCoordinatorEntity_init D rd c ch)) \<noteq> None
   \<and> name (attr_device_info (ReolinkChannelCoordinatorEntity_init D rd c ch)) \<noteq> None
   \<and> DeviceInfo.model (attr_device_info (ReolinkChannelCoordinatorEntity_init D rd c ch)) \<noteq> None
   \<and> DeviceInfo.manufacturer (attr_device_info (ReolinkChannelCoordinatorEntity_init D rd c ch))
       = Some (Host_api.manufacturer (api (ReolinkData.host rd)))
   \<and> DeviceInfo.sw_version (attr_device_info (ReolinkChannelCoordinatorEntity_init D rd c ch))
       \<noteq> None
   \<and> (is_nvr (api (ReolinkData.host rd)) \<longrightarrow>
        connections (attr_device_info (ReolinkChannelCoordinatorEntity_init D rd c ch)) = None
      \<and> hw_version (attr_device_info (ReolinkChannelCoordinatorEntity_init D rd c ch)) = None
      \<and> serial_number (attr_device_info (ReolinkChannelCoordinatorEntity_init D rd c ch)) = None
      \<and> via_device (attr_device_info (ReolinkChannelCoordinatorEntity_init D rd c ch))
          = Some (DOMAIN, unique_id (ReolinkData.host rd)))
   \<and> (\<not> is_nvr (api (ReolinkData.host rd)) \<longrightarrow>
        attr_device_info (ReolinkChannelCoordinatorEntity_init D rd c ch)
          = attr_device_info (ReolinkHostCoordinatorEntity_init rd d))"
proof (cases "is_nvr (api (ReolinkData.host rd))")
  case True
  then show ?thesis
    by (simp add: host_init_device_info base_init_device_info channel_init_device_info_nvr Let_def)
next
  case False
  then show ?thesis
    by (simp add: host_init_device_info base_init_device_info Let_def
        channel_init_device_info_single [where co = "device_coordinator rd"])
qed

text \<open>The sample installation with the NVR flag on, and with it off.\<close>

theorem device_info_fields_per_mode_witness:
  "is_nvr (api (ReolinkData.host (sample_data True)))
   \<and> connections (attr_device_info (ReolinkChannelCoordinatorEntity_init {}
        (sample_data True) (sample_channel_description ''motion'' None) 1)) = None
   \<and> via_device (attr_device_info (ReolinkChannelCoordinatorEntity_init {}
        (sample_data True) (sample_channel_description ''motion'' None) 1))
       = Some (DOMAIN, ''ec71db000001'')
   \<and> \<not> is_nvr (api (ReolinkData.host (sample_data False)))
   \<and> attr_device_info (ReolinkChannelCoordinatorEntity_init {}
        (sample_data False) (sample_channel_description ''motion'' None) 1)
       = attr_device_info (ReolinkHostCoordinatorEntity_init (sample_data False)
           (sample_host_description ''firmware'' None))
   \<and> name (attr_device_info (ReolinkHostCoordinatorEntity_init (sample_data False)
           (sample_host_description ''firmware'' None))) = Some ''Hub''"
  using device_info_fields_per_mode [where rd = "sample_data True" and D = "{}"
      and c = "sample_channel_description ''motion'' None" and ch = 1
      and d = "sample_host_description ''firmware'' None"]
    device_info_fields_per_mode [where rd = "sample_data False" and D = "{}"
      and c = "sample_channel_description ''motion'' None" and ch = 1
      and d = "sample_host_description ''firmware'' None"]
  by (simp add: sample_data_simps)

text \<open>
  Claim C7 as stated fails in channel mode on an NVR: the record of a channel entity of the
  sample installation has no MAC connection, no hardware version and no serial.
\<close>

theorem nvr_channel_identity_lacks_mac_hardware_serial:
  "connections (attr_device_info (ReolinkChannelCoordinatorEntity_init {}
        (sample_data True) (sample_channel_description ''motion'' None) 1)) = None
   \<and> hw_version (attr_device_info (ReolinkChannelCoordinatorEntity_init {}
        (sample_data True) (sample_channel_description ''motion'' None) 1)) = None
   \<and> serial_number (attr_device_info (ReolinkChannelCoordinatorEntity_init {}
        (sample_data True) (sample_channel_description ''motion'' None) 1)) = None"
  by (simp add: channel_init_device_info_nvr sample_data_simps Let_def)

subsection \<open>Unique ids\<close>

text \<open>
  Claim C4, amended.  The unique id is a function of the device unique id, the optional
  channel index and the description key alone: the three joined by underscores, the channel
  in decimal.  Within one integration instance two host-scoped entities have the same id
  exactly when their keys are equal, two channel-scoped entities exactly when their channels
  and keys are equal, and a host-scoped and a channel-scoped entity exactly when the key of
  the host-scoped one is the channel in decimal, an underscore, and the key of the
  channel-scoped one.
\<close>

theorem unique_id_function_and_collisions:
  "attr_unique_id (ReolinkHostCoordinatorEntity_init rd d)
     = unique_id (ReolinkData.host rd) @ ''_'' @ key d
   \<and> attr_unique_id (ReolinkChannelCoordinatorEntity_init D rd c ch)
     = unique_id (ReolinkData.host rd) @ ''_'' @ str_int ch @ ''_'' @ key c
   \<and> (attr_unique_id (ReolinkHostCoordinatorEntity_init rd d)
        = attr_unique_id (ReolinkHostCoordinatorEntity_init rd d')
      \<longleftrightarrow> key d = key d')
   \<and> (attr_unique_id (ReolinkChannelCoordinatorEntity_init D rd c ch)
        = attr_unique_id (ReolinkChannelCoordinatorEntity_init D rd c' ch')
      \<longleftrightarrow> ch = ch' \<and> key c = key c')
   \<and> (attr_unique_id (ReolinkHostCoordinatorEntity_init rd d)
        = attr_unique_id (ReolinkChannelCoordinatorEntity_init D rd c ch)
      \<longleftrightarrow> key d = str_int ch @ ''_'' @ key c)"
  using str_int_sep_eq [of ch "key c" ch' "key c'"]
  by (simp add: host_init_unique_id channel_init_unique_id)

text \<open>
  Claim C4 as stated fails: the host-scoped entity with key \<open>0_motion\<close> and the
  channel-scoped entity on channel 0 with key \<open>motion\<close> have distinct (channel, key)
  pairs and the same unique id.
\<close>

theorem host_and_channel_unique_ids_collide:
  "(None, ''0_motion'') \<noteq> (Some (0::int), ''motion'')
   \<and> attr_unique_id (ReolinkHostCoordinatorEntity_init (sample_data True)
        (sample_host_description ''0_motion'' None))
     = attr_unique_id (ReolinkChannelCoordinatorEntity_init {} (sample_data True)
        (sample_channel_description ''motion'' None) 0)"
  by (simp add: host_init_unique_id channel_init_unique_id str_int_0
      sample_channel_description_simps sample_host_description_simps)

subsection \<open>Dual-lens folding touches the device identity only\<close>

text \<open>
  Claim C9.  For every channel entity the unique id embeds the requested channel index and
  the channel-scoped register and unregister calls pass the requested channel index, also
  when the model is in the dual-lens set.  Hence two entities of one description on
  distinct channels of a dual-lens device have distinct unique ids and distinct
  registrations, and the same device identity record.
\<close>

theorem dual_lens_folding_only_in_identity:
  "attr_unique_id (ReolinkChannelCoordinatorEntity_init D rd d ch)
     = unique_id (ReolinkData.host rd) @ ''_'' @ str_int ch @ ''_'' @ key d
   \<and> channel (ReolinkChannelCoordinatorEntity_init D rd d ch) = ch
   \<and> (cmd_key d = Some k \<longrightarrow>
        registrations (ReolinkChannelCoordinatorEntity_async_added_to_hass
          (ReolinkChannelCoordinatorEntity_init D rd d ch) []) = [(k, None), (k, Some ch)]
      \<and> unregistrations (ReolinkChannelCoordinatorEntity_async_will_remove_from_hass
          (ReolinkChannelCoordinatorEntity_init D rd d ch) []) = [(k, Some ch), (k, None)])
   \<and> (Host_api.model (api (ReolinkData.host rd)) \<in> D \<and> ch \<noteq> ch' \<longrightarrow>
        attr_unique_id (ReolinkChannelCoordinatorEntity_init D rd d ch)
          \<noteq> attr_unique_id (ReolinkChannelCoordinatorEntity_init D rd d ch')
      \<and> attr_device_info (ReolinkChannelCoordinatorEntity_init D rd d ch)
          = attr_device_info (ReolinkChannelCoordinatorEntity_init D rd d ch')
      \<and> (cmd_key d = Some k \<longrightarrow>
           registrations (ReolinkChannelCoordinatorEntity_async_added_to_hass
             (ReolinkChannelCoordinatorEntity_init D rd d ch) [])
           \<noteq> registrations (ReolinkChannelCoordinatorEntity_async_added_to_hass
             (ReolinkChannelCoordinatorEntity_init D rd d ch') [])))"
proof -
  have info: "attr_device_info (ReolinkChannelCoordinatorEntity_init D rd d ch)
      = attr_device_info (ReolinkChannelCoordinatorEntity_init D rd d ch')"
    if "Host_api.model (api (ReolinkData.host rd)) \<in> D"
  proof (cases "is_nvr (api (ReolinkData.host rd))")
    case True
    with that show ?thesis by (simp add: channel_init_device_info_nvr Let_def)
  next
    case False
    then show ?thesis
      by (simp add: channel_init_device_info_single [where co = "device_coordinator rd"])
  qed
  have ids: "attr_unique_id (ReolinkChannelCoordinatorEntity_init D rd d ch)
      \<noteq> attr_unique_id (ReolinkChannelCoordinatorEntity_init D rd d ch')" if "ch \<noteq> ch'"
    using that str_int_sep_eq [of ch "key d" ch' "key d"]
    by (simp add: channel_init_unique_id)
  show ?thesis
    using info ids
    by (simp add: channel_init_unique_id channel_init_channel channel_init_description
        channel_added_trace channel_remove_trace)
qed

text \<open>The two lenses of the sample installation.\<close>

theorem dual_lens_folding_only_in_identity_witness:
  "cmd_key (sample_channel_description ''motion'' (Some ''GetMdState'')) = Some ''GetMdState''
   \<and> Host_api.model (api (ReolinkData.host (sample_data True))) \<in> {''Reolink Duo PoE''}
   \<and> (0::int) \<noteq> 1
   \<and> attr_unique_id (ReolinkChannelCoordinatorEntity_init {''Reolink Duo PoE''}
        (sample_data True) (sample_channel_description ''motion'' (Some ''GetMdState'')) 0)
       = ''ec71db000001_0_motion''
   \<and> attr_unique_id (ReolinkChannelCoordinatorEntity_init {''Reolink Duo PoE''}
        (sample_data True) (sample_channel_description ''motion'' (Some ''GetMdState'')) 0)
       \<noteq> attr_unique_id (ReolinkChannelCoordinatorEntity_init {''Reolink Duo PoE''}
        (sample_data True) (sample_channel_description ''motion'' (Some ''GetMdState'')) 1)
   \<and> attr_device_info (ReolinkChannelCoordinatorEntity_init {''Reolink Duo PoE''}
        (sample_data True) (sample_channel_description ''motion'' (Some ''GetMdState'')) 0)
       = attr_device_info (ReolinkChannelCoordinatorEntity_init {''Reolink Duo PoE''}
        (sample_data True) (sample_channel_description ''motion'' (Some ''GetMdState'')) 1)
   \<and> registrations (ReolinkChannelCoordinatorEntity_async_added_to_hass
        (ReolinkChannelCoordinatorEntity_init {''Reolink Duo PoE''}
          (sample_data True) (sample_channel_description ''motion'' (Some ''GetMdState'')) 0) [])
       = [(''GetMdState'', None), (''GetMdState'', Some 0)]"
  using dual_lens_folding_only_in_identity [where D = "{''Reolink Duo PoE''}"
      and rd = "sample_data True"
      and d = "sample_channel_description ''motion'' (Some ''GetMdState'')"
      and ch = 0 and ch' = 1 and k = "''GetMdState''"]
  by (simp add: sample_data_simps sample_channel_description_simps str_int_0 str_int_1
      channel_init_unique_id)

end
